theory Spec2Isabelle
  imports Complex_Main
begin

section \<open>The Grover Q-learning agent of \<^verbatim>\<open>Grover/GroverQLearner.ipynb\<close>\<close>

text \<open>
  The notebook defines one class, \<^verbatim>\<open>GroverQLearner\<close>. Its methods are embedded one by one.
  Python exceptions are values of the type \<open>exn\<close>; a method is a function from the agent to a
  result (or an exception) together with the agent as the method leaves it, so that what a
  method has written before it raises is still visible. Python integers are \<open>int\<close>. NumPy
  floats are modelled as real numbers: the rounding of a float operation, infinities and
  \<^verbatim>\<open>nan\<close> are outside the model, so a function of floats is the exact function here. The two
  \<^verbatim>\<open>print\<close> statements of \<^verbatim>\<open>train\<close> are left out.
\<close>

subsection \<open>Exceptions and the method monad\<close>

datatype exn =
    AttributeError string
  | TypeError string
  | ValueError string
  | IndexError
  | OverflowError

type_synonym ('a, 's) py = "'s \<Rightarrow> (exn + 'a) \<times> 's"

definition returnP :: "'a \<Rightarrow> ('a, 's) py" where
  "returnP x = (\<lambda>s. (Inr x, s))"

definition raiseP :: "exn \<Rightarrow> ('a, 's) py" where
  "raiseP e = (\<lambda>s. (Inl e, s))"

definition bindP :: "('a, 's) py \<Rightarrow> ('a \<Rightarrow> ('b, 's) py) \<Rightarrow> ('b, 's) py" where
  "bindP m f = (\<lambda>s. case m s of (Inl e, s') \<Rightarrow> (Inl e, s') | (Inr x, s') \<Rightarrow> f x s')"

definition liftE :: "exn + 'a \<Rightarrow> ('a, 's) py" where
  "liftE r = (\<lambda>s. (r, s))"

definition readP :: "('s \<Rightarrow> 'a) \<Rightarrow> ('a, 's) py" where
  "readP g = (\<lambda>s. (Inr (g s), s))"

definition writeP :: "('s \<Rightarrow> 's) \<Rightarrow> (unit, 's) py" where
  "writeP u = (\<lambda>s. (Inr (), u s))"

subsection \<open>Numbers\<close>

text \<open>Python's \<^verbatim>\<open>round\<close> on a float: to the nearest integer, a tie going to the even one.\<close>

definition py_round :: "real \<Rightarrow> int" where
  "py_round x =
     (let f = \<lfloor>x\<rfloor>; d = x - of_int f
      in if d < 1/2 then f else if 1/2 < d then f + 1 else if even f then f else f + 1)"


text \<open>
  \<^verbatim>\<open>ceil(np.log2(self.action_dimension))\<close>: \<^verbatim>\<open>np.log2\<close> gives \<^verbatim>\<open>-inf\<close> at 0 and \<^verbatim>\<open>nan\<close> below,
  on which \<^verbatim>\<open>math.ceil\<close> raises. Above 0 the logarithm is the exact one; the float of
  \<^verbatim>\<open>np.log2\<close> equals it at the powers of two, and may fall on the other side of an
  integer for a large argument next to one.
\<close>

definition action_qregister_size_of :: "int \<Rightarrow> exn + nat" where
  "action_qregister_size_of A =
     (if A = 0 then Inl OverflowError
      else if A < 0 then Inl (ValueError ''cannot convert float NaN to integer'')
      else Inr (nat \<lceil>log 2 (of_int A)\<rceil>))"

text \<open>The argument of \<^verbatim>\<open>round\<close> in \<^verbatim>\<open>__init__\<close>, for a register of \<open>n\<close> qubits.\<close>

definition grover_optimum :: "nat \<Rightarrow> real" where
  "grover_optimum n = pi / (4 * arcsin (1 / sqrt (2 ^ n))) - 1/2"

text \<open>
  \<^verbatim>\<open>self.max_grover_length = int(round(np.pi / (4 * np.arcsin(1. / np.sqrt(2 ** n))) - 0.5))\<close>
\<close>

definition max_grover_length_of :: "nat \<Rightarrow> int" where
  "max_grover_length_of n = py_round (grover_optimum n)"

text \<open>The formula as the specification words it, with the floor.\<close>

definition spec_max_iterations :: "nat \<Rightarrow> int" where
  "spec_max_iterations n = \<lfloor>pi / (4 * arcsin (1 / sqrt (2 ^ n))) - 1/2\<rfloor>"

subsection \<open>Arrays\<close>

text \<open>Indexing a list or a one-dimensional array: a negative index counts from the end.\<close>

definition norm_index :: "nat \<Rightarrow> int \<Rightarrow> exn + nat" where
  "norm_index len i =
     (if 0 \<le> i \<and> i < int len then Inr (nat i)
      else if i < 0 \<and> - int len \<le> i then Inr (nat (int len + i))
      else Inl IndexError)"

definition py_getitem :: "'a list \<Rightarrow> int \<Rightarrow> exn + 'a" where
  "py_getitem xs i =
     (case norm_index (length xs) i of Inl e \<Rightarrow> Inl e | Inr j \<Rightarrow> Inr (xs ! j))"

definition py_setitem :: "'a list \<Rightarrow> int \<Rightarrow> 'a \<Rightarrow> exn + 'a list" where
  "py_setitem xs i v =
     (case norm_index (length xs) i of Inl e \<Rightarrow> Inl e | Inr j \<Rightarrow> Inr (xs[j := v]))"

text \<open>\<^verbatim>\<open>a[i, j]\<close> and \<^verbatim>\<open>a[i, j] = v\<close> on a two-dimensional array, kept as the list of its rows.\<close>

definition np_getitem2 :: "'a list list \<Rightarrow> int \<Rightarrow> int \<Rightarrow> exn + 'a" where
  "np_getitem2 a i j =
     (case py_getitem a i of Inl e \<Rightarrow> Inl e | Inr row \<Rightarrow> py_getitem row j)"

definition np_setitem2 :: "'a list list \<Rightarrow> int \<Rightarrow> int \<Rightarrow> 'a \<Rightarrow> exn + 'a list list" where
  "np_setitem2 a i j v =
     (case norm_index (length a) i of
        Inl e \<Rightarrow> Inl e
      | Inr i' \<Rightarrow> (case py_setitem (a ! i') j v of
                    Inl e \<Rightarrow> Inl e
                  | Inr row \<Rightarrow> Inr (a[i' := row])))"

text \<open>\<^verbatim>\<open>np.max\<close> of a row; it raises on an empty one.\<close>

fun np_max :: "real list \<Rightarrow> exn + real" where
  "np_max [] = Inl (ValueError ''zero-size array to reduction operation maximum'')"
| "np_max (x # xs) = Inr (fold max xs x)"

text \<open>\<^verbatim>\<open>.any()\<close> of a row of booleans.\<close>

definition np_any :: "bool list \<Rightarrow> bool" where
  "np_any bs = (True \<in> set bs)"

text \<open>
  The keys of the counts a backend returns are bit strings, kept as lists of bits with the
  most significant first. \<^verbatim>\<open>int(key, 2)\<close> on such a key gives its value, and raises on the
  empty string.
\<close>

fun bits_value :: "int \<Rightarrow> bool list \<Rightarrow> int" where
  "bits_value acc [] = acc"
| "bits_value acc (b # bs) = bits_value (2 * acc + (if b then 1 else 0)) bs"

definition int_base2 :: "bool list \<Rightarrow> exn + int" where
  "int_base2 key =
     (if key = [] then Inl (ValueError ''invalid literal for int() with base 2'')
      else Inr (bits_value 0 key))"

text \<open>
  \<^verbatim>\<open>a[i, j] = v\<close> on an array of \<^verbatim>\<open>dtype=int\<close>: after the indices are found, a value that is
  no 64-bit integer is refused and the array stays as it was.
\<close>

definition int64_setitem2 :: "int list list \<Rightarrow> int \<Rightarrow> int \<Rightarrow> int \<Rightarrow> exn + int list list" where
  "int64_setitem2 a i j v =
     (case np_setitem2 a i j v of
        Inl e \<Rightarrow> Inl e
      | Inr a' \<Rightarrow> if - (2 ^ 63) \<le> v \<and> v < 2 ^ 63 then Inr a' else Inl OverflowError)"

subsection \<open>Circuits, operators and the objects an array is asked to hold\<close>

datatype instr = H nat | Grover int | Barrier | Measure nat

text \<open>
  A \<^verbatim>\<open>QuantumCircuit\<close>: its width, the state index of its name \<^verbatim>\<open>action_s{}\<close>, and the
  instructions appended so far.
\<close>

record circuit =
  num_qubits :: nat
  name_index :: int
  data :: "instr list"

definition QuantumCircuit :: "nat \<Rightarrow> int \<Rightarrow> circuit" where
  "QuantumCircuit n s = \<lparr>num_qubits = n, name_index = s, data = []\<rparr>"

definition h_all :: "circuit \<Rightarrow> circuit" where
  "h_all c = c\<lparr>data := data c @ map H [0..<num_qubits c]\<rparr>"

definition measure_all :: "circuit \<Rightarrow> circuit" where
  "measure_all c = c\<lparr>data := data c @ Barrier # map Measure [0..<num_qubits c]\<rparr>"

datatype pyobj = PyFloat real | PyCircuit circuit | PyInstruction instr

text \<open>
  \<^verbatim>\<open>np.zeros(n)\<close> is an array of \<open>n\<close> floats (dtype \<^verbatim>\<open>float64\<close>); a negative \<open>n\<close> is refused.
  Storing into it converts the value to a float, which neither a circuit (a sequence of
  instructions to NumPy) nor an instruction is.
\<close>

definition np_zeros :: "int \<Rightarrow> exn + real list" where
  "np_zeros n =
     (if n < 0 then Inl (ValueError ''negative dimensions are not allowed'')
      else Inr (replicate (nat n) 0))"

fun float64_of :: "pyobj \<Rightarrow> exn + real" where
  "float64_of (PyFloat r) = Inr r"
| "float64_of (PyCircuit c) = Inl (ValueError ''setting an array element with a sequence.'')"
| "float64_of (PyInstruction g) = Inl (TypeError ''float() argument must be a string or a real number'')"

definition float64_setitem :: "real list \<Rightarrow> int \<Rightarrow> pyobj \<Rightarrow> exn + real list" where
  "float64_setitem a i v =
     (case float64_of v of Inl e \<Rightarrow> Inl e | Inr r \<Rightarrow> py_setitem a i r)"

subsection \<open>The agent\<close>

record hyper =
  k :: real
  alpha :: real
  gamma :: real
  eps :: real
  max_epochs :: int
  max_steps :: int

text \<open>The dictionary literal of \<^verbatim>\<open>__init__\<close>.\<close>

definition default_hyperparameters :: hyper where
  "default_hyperparameters =
     \<lparr>k = 0.1, alpha = 0.05, gamma = 0.99, eps = 0.01, max_epochs = 1000, max_steps = 100\<rparr>"

text \<open>
  The fields are the attributes \<^verbatim>\<open>__init__\<close> assigns. Circuits are objects that the code
  copies and changes in place, so \<open>action_circuits\<close> holds references into \<open>objects\<close>, the
  store of all circuit objects; a new object gets the next free reference.
\<close>

record ('e, 'b) agent =
  env :: 'e
  state :: int
  action :: int
  state_dimension :: int
  action_dimension :: int
  action_qregister_size :: nat
  max_grover_length :: int
  Q_values :: "real list list"
  grover_lengths :: "int list list"
  max_grover_length_reached :: "bool list list"
  grover_operators :: "instr list"
  action_circuits :: "nat list"
  hyperparameters :: hyper
  backend :: 'b
  objects :: "circuit list"

text \<open>
  The names an instance answers to: the attributes assigned in \<^verbatim>\<open>__init__\<close> and the methods
  of the class (the class has no base but \<^verbatim>\<open>object\<close>, whose attributes are all of the form
  \<^verbatim>\<open>__name__\<close>). \<^verbatim>\<open>self.name\<close> for any other name raises \<^verbatim>\<open>AttributeError\<close>. \<open>getattr_self\<close>
  is written where the source's name is not the name of a field, with the field the
  statement is evidently after.
\<close>

definition instance_attributes :: "string list" where
  "instance_attributes =
     [''env'', ''state'', ''action'', ''state_dimension'', ''action_dimension'',
      ''action_qregister_size'', ''max_grover_length'', ''Q_values'', ''grover_lengths'',
      ''max_grover_length_reached'', ''grover_operators'', ''action_circuits'',
      ''hyperparameters'', ''backend'']"

definition class_attributes :: "string list" where
  "class_attributes =
     [''__init__'', ''set_hyperparameters'', ''_init_action_circuits'',
      ''_init_grover_operators'', ''_take_action'', ''_get_grover_length'',
      ''_run_grover_iterations'', ''_update_Q_values'', ''train'']"

definition getattr_self :: "string \<Rightarrow> ('s \<Rightarrow> 'a) \<Rightarrow> ('a, 's) py" where
  "getattr_self name field =
     (\<lambda>ag. if name \<in> set (instance_attributes @ class_attributes)
           then (Inr (field ag), ag) else (Inl (AttributeError name), ag))"

text \<open>Calling an array, as in \<^verbatim>\<open>self.action_circuits(self.state)\<close>.\<close>

definition call_ndarray :: "'a \<Rightarrow> int list \<Rightarrow> ('c, 's) py" where
  "call_ndarray a args = raiseP (TypeError ''numpy.ndarray object is not callable'')"

text \<open>Iterating over an integer, as in \<^verbatim>\<open>for _ in length\<close>.\<close>

definition iterate_int :: "int \<Rightarrow> (unit, 's) py \<Rightarrow> (unit, 's) py" where
  "iterate_int n body = raiseP (TypeError ''int object is not iterable'')"

text \<open>Subscripting a bound method, as in \<^verbatim>\<open>steps_in_all_epochs.append[optimal_steps]\<close>.\<close>

definition subscript_method :: "'a list \<Rightarrow> 'a \<Rightarrow> (unit, 's) py" where
  "subscript_method xs v =
     raiseP (TypeError ''builtin_function_or_method object is not subscriptable'')"

subsection \<open>The methods of the class\<close>

text \<open>\<^verbatim>\<open>def set_hyperparameters(self, params): pass\<close>\<close>

definition set_hyperparameters :: "'p \<Rightarrow> (unit, ('e, 'b) agent) py" where
  "set_hyperparameters params = returnP ()"

text \<open>
  \<^verbatim>\<open>_init_action_circuits\<close>. The first loop stores a new circuit at each index of the array of
  floats; the second calls \<^verbatim>\<open>.h\<close> on each element of that array, and a float has no such
  attribute.
\<close>

fun store_circuits :: "nat \<Rightarrow> int list \<Rightarrow> real list \<Rightarrow> exn + real list" where
  "store_circuits n [] a = Inr a"
| "store_circuits n (s # ss) a =
     (case float64_setitem a s (PyCircuit (QuantumCircuit n s)) of
        Inl e \<Rightarrow> Inl e
      | Inr a' \<Rightarrow> store_circuits n ss a')"

fun h_each :: "nat \<Rightarrow> real list \<Rightarrow> exn + unit" where
  "h_each n [] = Inr ()"
| "h_each n (x # xs) = Inl (AttributeError ''h'')"

definition init_action_circuits :: "(real list, ('e, 'b) agent) py" where
  "init_action_circuits =
     bindP (readP state_dimension) (\<lambda>S.
     bindP (readP action_qregister_size) (\<lambda>n.
     bindP (liftE (np_zeros S)) (\<lambda>zeros.
     bindP (liftE (store_circuits n (map int [0..<nat S]) zeros)) (\<lambda>action_circuits.
     bindP (liftE (h_each n action_circuits)) (\<lambda>_.
     returnP action_circuits)))))"

text \<open>
  \<^verbatim>\<open>_take_action\<close>. \<open>execute\<close> is the backend: from its own state, the circuit and the number
  of shots it gives the keys of the counts and its next state. The backend is reached only
  through \<open>execute_job\<close>, so each execution shows in the state of the backend.
\<close>

definition copy_circuit :: "nat \<Rightarrow> (nat, ('e, 'b) agent) py" where
  "copy_circuit r = (\<lambda>ag. (Inr (length (objects ag)), ag\<lparr>objects := objects ag @ [objects ag ! r]\<rparr>))"

definition measure_all_at :: "nat \<Rightarrow> (unit, ('e, 'b) agent) py" where
  "measure_all_at r = writeP (\<lambda>ag. ag\<lparr>objects := (objects ag)[r := measure_all (objects ag ! r)]\<rparr>)"

definition execute_job ::
  "('b \<Rightarrow> circuit \<Rightarrow> nat \<Rightarrow> bool list list \<times> 'b) \<Rightarrow> nat \<Rightarrow> nat \<Rightarrow> (bool list list, ('e, 'b) agent) py" where
  "execute_job execute r shots =
     (\<lambda>ag. let c = objects ag ! r; (counts, b) = execute (backend ag) c shots
           in (Inr counts, ag\<lparr>backend := b\<rparr>))"

definition take_action ::
  "('b \<Rightarrow> circuit \<Rightarrow> nat \<Rightarrow> bool list list \<times> 'b) \<Rightarrow> (int, ('e, 'b) agent) py" where
  "take_action execute =
     bindP (\<lambda>ag. (py_getitem (action_circuits ag) (state ag), ag)) (\<lambda>circuit.
     bindP (copy_circuit circuit) (\<lambda>circuit_to_measure.
     bindP (measure_all_at circuit_to_measure) (\<lambda>_.
     bindP (execute_job execute circuit_to_measure 1) (\<lambda>counts.
     bindP (liftE (py_getitem counts 0)) (\<lambda>key.
     liftE (int_base2 key))))))"


text \<open>
  \<^verbatim>\<open>_run_grover_iterations\<close>. Its first statement reads \<^verbatim>\<open>self.grover_length\<close>; the next three
  call arrays; the loop iterates over the integer \<^verbatim>\<open>length\<close>.
\<close>

definition run_grover_iterations :: "(unit, ('e, 'b) agent) py" where
  "run_grover_iterations =
     bindP (readP state) (\<lambda>s.
     bindP (readP action) (\<lambda>a.
     bindP (getattr_self ''grover_length'' grover_lengths) (\<lambda>gl.
     bindP (call_ndarray gl [s, a]) (\<lambda>raw.
     bindP (readP max_grover_length) (\<lambda>M.
     bindP (returnP (min raw M)) (\<lambda>length.
     bindP (readP action_circuits) (\<lambda>cs.
     bindP (call_ndarray cs [s]) (\<lambda>circuit.
     bindP (readP grover_operators) (\<lambda>gs.
     bindP (call_ndarray gs [a]) (\<lambda>grover_operator.
     bindP (readP max_grover_length_reached) (\<lambda>fs.
     bindP (call_ndarray fs [s]) (\<lambda>reached.
     bindP (if \<not> np_any reached
            then iterate_int length
                   (writeP (\<lambda>ag. ag\<lparr>objects := (objects ag)
                      [circuit := (objects ag ! circuit)
                         \<lparr>data := data (objects ag ! circuit) @ [grover_operator]\<rparr>]\<rparr>))
            else returnP ()) (\<lambda>_.
     bindP (if length = M \<and> \<not> np_any reached
            then bindP (\<lambda>ag. (np_setitem2 (max_grover_length_reached ag) s a True, ag))
                   (\<lambda>fs'. writeP (max_grover_length_reached_update (\<lambda>_. fs')))
            else returnP ()) (\<lambda>_.
     bindP (\<lambda>ag. (py_setitem (action_circuits ag) s circuit, ag))
       (\<lambda>cs'. writeP (action_circuits_update (\<lambda>_. cs')))))))))))))))))"

text \<open>
  \<^verbatim>\<open>_update_Q_values\<close>. The right-hand side is evaluated first, from left to right:
  \<^verbatim>\<open>self.Q_values[...]\<close>, then \<^verbatim>\<open>self.Q_value[new_state]\<close>; the target of the assignment is
  \<^verbatim>\<open>self.Q_value[...]\<close> again.
\<close>

definition update_Q_values :: "real \<Rightarrow> int \<Rightarrow> (unit, ('e, 'b) agent) py" where
  "update_Q_values reward new_state =
     bindP (readP (\<lambda>ag. alpha (hyperparameters ag))) (\<lambda>al.
     bindP (readP (\<lambda>ag. gamma (hyperparameters ag))) (\<lambda>ga.
     bindP (readP state) (\<lambda>s.
     bindP (readP action) (\<lambda>a.
     bindP (\<lambda>ag. (np_getitem2 (Q_values ag) s a, ag)) (\<lambda>q1.
     bindP (getattr_self ''Q_value'' Q_values) (\<lambda>qv.
     bindP (liftE (py_getitem qv new_state)) (\<lambda>row.
     bindP (liftE (np_max row)) (\<lambda>m.
     bindP (\<lambda>ag. (np_getitem2 (Q_values ag) s a, ag)) (\<lambda>q2.
     bindP (getattr_self ''Q_value'' Q_values) (\<lambda>target.
     bindP (liftE (np_setitem2 target s a (q1 + al * (reward + ga * m - q2))))
       (\<lambda>qs'. writeP (Q_values_update (\<lambda>_. qs')))))))))))))"

subsection \<open>The training loop\<close>

text \<open>
  The environment is whatever object the agent was given: \<open>gym_reset\<close> and \<open>gym_step\<close> are
  its two methods, acting on its state \<open>env\<close>. \<^verbatim>\<open>train\<close> unpacks five values from
  \<^verbatim>\<open>env.step\<close> and calls the fourth \<^verbatim>\<open>done\<close>.
\<close>

record 'e gym =
  gym_reset :: "'e \<Rightarrow> int \<times> 'e"
  gym_step :: "'e \<Rightarrow> int \<Rightarrow> (int \<times> real \<times> bool \<times> bool \<times> unit) \<times> 'e"

text \<open>
  \<^verbatim>\<open>train\<close> reaches the other methods through \<^verbatim>\<open>self\<close>, which Python resolves at each call,
  so the loop is written over the methods it is given; \<open>class_methods\<close> are the ones the
  class defines.
\<close>

record ('e, 'b) methods =
  m_take_action :: "(int, ('e, 'b) agent) py"
  m_update_Q_values :: "real \<Rightarrow> int \<Rightarrow> (unit, ('e, 'b) agent) py"
  m_get_grover_length :: "real \<Rightarrow> int \<Rightarrow> (int, ('e, 'b) agent) py"
  m_run_grover_iterations :: "(unit, ('e, 'b) agent) py"


text \<open>The local variables of \<^verbatim>\<open>train\<close> that live across steps and epochs.\<close>

record locals =
  optimal_steps :: int
  target_reached :: bool
  trajectory :: "int list"
  steps_in_all_epochs :: "int list"
  target_reached_in_all_epochs :: "bool list"
  trajectories_in_all_epochs :: "int list list"

text \<open>
  The reward rules of a step: an \<^verbatim>\<open>if\<close>, followed by a separate \<^verbatim>\<open>if\<close> \<dots> \<^verbatim>\<open>elif\<close>.
  The arguments are \<^verbatim>\<open>self.state\<close>, \<^verbatim>\<open>self.state_dimension\<close>, \<^verbatim>\<open>step\<close>, and what
  \<^verbatim>\<open>env.step\<close> returned.
\<close>

definition shape_reward ::
  "int \<Rightarrow> int \<Rightarrow> int \<Rightarrow> int \<Rightarrow> real \<Rightarrow> bool \<Rightarrow> locals \<Rightarrow> real \<times> bool \<times> locals" where
  "shape_reward s S stp new_state reward done loc =
     (let (reward1, done1) = (if new_state = s then (reward - 10, True) else (reward, done))
      in if new_state = S - 1
         then (reward1 + 99, done1, loc\<lparr>optimal_steps := stp + 1, target_reached := True\<rparr>)
         else if \<not> done1 then (reward1 - 1, done1, loc)
         else (reward1, done1, loc))"

text \<open>
  \<^verbatim>\<open>self.grover_lengths[self.state, self.action] = self._get_grover_length(reward, new_state)\<close>
\<close>

definition store_grover_length ::
  "(real \<Rightarrow> int \<Rightarrow> (int, ('e, 'b) agent) py) \<Rightarrow> real \<Rightarrow> int \<Rightarrow> (unit, ('e, 'b) agent) py" where
  "store_grover_length get_length reward new_state =
     bindP (get_length reward new_state) (\<lambda>l.
     bindP (\<lambda>ag. (int64_setitem2 (grover_lengths ag) (state ag) (action ag) l, ag)) (\<lambda>gl.
     writeP (grover_lengths_update (\<lambda>_. gl))))"

text \<open>
  One pass through the body of the step loop, up to and including
  \<^verbatim>\<open>trajectory.append(new_state)\<close>. It returns the locals, \<^verbatim>\<open>done\<close> and \<^verbatim>\<open>new_state\<close>.
\<close>

definition step_body ::
  "('e, 'b) methods \<Rightarrow> 'e gym \<Rightarrow> int \<Rightarrow> locals \<Rightarrow> (locals \<times> bool \<times> int, ('e, 'b) agent) py" where
  "step_body ms gm stp loc =
     bindP (m_take_action ms) (\<lambda>a.
     bindP (writeP (action_update (\<lambda>_. a))) (\<lambda>_.
     bindP (\<lambda>ag. case gym_step gm (env ag) a of (r, e) \<Rightarrow> (Inr r, ag\<lparr>env := e\<rparr>))
       (\<lambda>(new_state, reward, terminated, done, info).
     bindP (readP state) (\<lambda>s.
     bindP (readP state_dimension) (\<lambda>S.
     case shape_reward s S stp new_state reward done loc of (reward', done', loc') \<Rightarrow>
     bindP (m_update_Q_values ms reward' new_state) (\<lambda>_.
     bindP (store_grover_length (m_get_grover_length ms) reward' new_state) (\<lambda>_.
     bindP (m_run_grover_iterations ms) (\<lambda>_.
     returnP (loc'\<lparr>trajectory := trajectory loc' @ [new_state]\<rparr>, done', new_state)))))))))"

text \<open>
  \<^verbatim>\<open>for step in range(optimal_steps)\<close>: the range is computed once, when the loop is
  entered; the first argument counts the iterations that are left, the second is \<^verbatim>\<open>step\<close>.
  The Boolean returned tells whether the loop was left by \<^verbatim>\<open>break\<close>.
\<close>

fun step_loop ::
  "('e, 'b) methods \<Rightarrow> 'e gym \<Rightarrow> nat \<Rightarrow> int \<Rightarrow> locals \<Rightarrow> (locals \<times> bool, ('e, 'b) agent) py" where
  "step_loop ms gm 0 stp loc = returnP (loc, False)"
| "step_loop ms gm (Suc n) stp loc =
     bindP (step_body ms gm stp loc) (\<lambda>(loc', done, new_state).
       if done then returnP (loc', True)
       else bindP (writeP (state_update (\<lambda>_. new_state)))
              (\<lambda>_. step_loop ms gm n (stp + 1) loc'))"

text \<open>The body of the epoch loop up to the end of the step loop.\<close>

definition epoch_body ::
  "('e, 'b) methods \<Rightarrow> 'e gym \<Rightarrow> locals \<Rightarrow> (locals \<times> bool, ('e, 'b) agent) py" where
  "epoch_body ms gm loc =
     bindP (\<lambda>ag. case gym_reset gm (env ag) of (s, e) \<Rightarrow> (Inr s, ag\<lparr>env := e\<rparr>)) (\<lambda>s.
     bindP (writeP (state_update (\<lambda>_. s))) (\<lambda>_.
     step_loop ms gm (nat (optimal_steps loc)) 0
       (loc\<lparr>target_reached := False, trajectory := [s]\<rparr>)))"

text \<open>
  The three statements that end an epoch:
  \<^verbatim>\<open>steps_in_all_epochs.append[optimal_steps]\<close> and its two siblings.
\<close>

definition record_epoch :: "locals \<Rightarrow> (unit, ('e, 'b) agent) py" where
  "record_epoch loc =
     bindP (subscript_method (steps_in_all_epochs loc) (optimal_steps loc)) (\<lambda>_.
     bindP (subscript_method (target_reached_in_all_epochs loc) (target_reached loc)) (\<lambda>_.
     subscript_method (trajectories_in_all_epochs loc) (trajectory loc)))"

fun epoch_loop ::
  "('e, 'b) methods \<Rightarrow> 'e gym \<Rightarrow> nat \<Rightarrow> locals \<Rightarrow> (locals, ('e, 'b) agent) py" where
  "epoch_loop ms gm 0 loc = returnP loc"
| "epoch_loop ms gm (Suc n) loc =
     bindP (epoch_body ms gm loc) (\<lambda>(loc', left_by_break).
     bindP (record_epoch loc') (\<lambda>_.
     epoch_loop ms gm n loc'))"

text \<open>The locals as the statements before the epoch loop set them.\<close>

definition initial_locals :: "hyper \<Rightarrow> locals" where
  "initial_locals hp =
     \<lparr>optimal_steps = max_steps hp, target_reached = False, trajectory = [],
      steps_in_all_epochs = [], target_reached_in_all_epochs = [],
      trajectories_in_all_epochs = []\<rparr>"

definition train ::
  "('e, 'b) methods \<Rightarrow> 'e gym \<Rightarrow> (int list \<times> bool list \<times> int list list, ('e, 'b) agent) py" where
  "train ms gm =
     bindP (readP hyperparameters) (\<lambda>hp.
     bindP (epoch_loop ms gm (nat (max_epochs hp)) (initial_locals hp)) (\<lambda>loc.
     returnP (steps_in_all_epochs loc, target_reached_in_all_epochs loc,
              trajectories_in_all_epochs loc)))"

subsection \<open>A concrete agent, backend and environment\<close>

text \<open>
  Four states and four actions, so two qubits and the maximal Grover length 1; every table
  at its initial value; one circuit per state, each with a Hadamard gate on either qubit;
  a backend that has not been asked for anything yet.
  The agent is in state 2 and its last action was 1.
\<close>

definition example_agent :: "(nat, nat list) agent" where
  "example_agent =
     \<lparr>env = 0, state = 2, action = 1, state_dimension = 4, action_dimension = 4,
      action_qregister_size = 2, max_grover_length = 1,
      Q_values = [[0, 0, 0, 0], [0, 0, 0, 0], [0, 0, 0, 0], [0, 0, 0, 0]],
      grover_lengths = [[0, 0, 0, 0], [0, 0, 0, 0], [0, 0, 0, 0], [0, 0, 0, 0]],
      max_grover_length_reached =
        [[False, False, False, False], [False, False, False, False],
         [False, False, False, False], [False, False, False, False]],
      grover_operators = [Grover 0, Grover 1, Grover 2, Grover 3],
      action_circuits = [0, 1, 2, 3],
      hyperparameters = default_hyperparameters,
      backend = [],
      objects = [h_all (QuantumCircuit 2 0), h_all (QuantumCircuit 2 1),
                 h_all (QuantumCircuit 2 2), h_all (QuantumCircuit 2 3)]\<rparr>"

text \<open>
  A backend that always measures the bit string \<^verbatim>\<open>00\<close>; its state is the list of the
  numbers of shots it was asked for, one entry for each execution.
\<close>

definition example_execute :: "nat list \<Rightarrow> circuit \<Rightarrow> nat \<Rightarrow> bool list list \<times> nat list" where
  "example_execute b c shots = ([[False, False]], b @ [shots])"



subsection \<open>The invariant of the table of Grover lengths\<close>


section \<open>Properties\<close>

subsection \<open>Auxiliary facts\<close>

lemmas py_defs = returnP_def raiseP_def bindP_def liftE_def readP_def writeP_def

lemma unknown_names:
  "getattr_self ''grover_length'' f = raiseP (AttributeError ''grover_length'')"
  "getattr_self ''Q_value'' f = raiseP (AttributeError ''Q_value'')"
  by (simp_all add: getattr_self_def raiseP_def instance_attributes_def class_attributes_def)

lemma py_round_of_int: "py_round (of_int z) = z"
  by (simp add: py_round_def)

lemma py_round_nearest: "\<bar>of_int (py_round x) - x\<bar> \<le> 1/2"
proof -
  have "of_int \<lfloor>x\<rfloor> \<le> x" "x < of_int \<lfloor>x\<rfloor> + 1" by linarith+
  then show ?thesis unfolding py_round_def Let_def by (simp split: if_splits)
qed

lemma py_round_upper_half:
  assumes "of_int z + 1/2 < x" "x < of_int z + 1"
  shows "py_round x = z + 1"
proof -
  have f: "\<lfloor>x\<rfloor> = z" using assms by linarith
  show ?thesis unfolding py_round_def Let_def f using assms by simp
qed

lemma grover_optimum_2: "grover_optimum 2 = 1"
  by (simp add: grover_optimum_def)

lemma max_grover_length_of_2: "max_grover_length_of 2 = 1"
  using py_round_of_int[of 1] by (simp add: max_grover_length_of_def grover_optimum_2)

lemma qregister_size_4: "action_qregister_size_of 4 = Inr 2"
proof -
  have "log 2 (4::real) = 2" using log2_of_power_eq[of 4 2] by simp
  then show ?thesis by (simp add: action_qregister_size_of_def)
qed

lemma inv_sqrt8_range: "0 \<le> 1 / sqrt 8" "1 / sqrt 8 \<le> 1"
proof -
  show "0 \<le> 1 / sqrt 8" by simp
  have "1 \<le> sqrt 8" by (rule real_sqrt_ge_one) simp
  then show "1 / sqrt 8 \<le> 1" by simp
qed

text \<open>
  The angle \<open>x\<close> with \<open>sin x = 1 / sqrt 8\<close> lies strictly between \<open>pi / 10\<close> and \<open>pi / 8\<close>: from
  \<open>sin\<^sup>2 x = 1/8\<close> the multiple-angle formulas give \<open>cos (4 x) = 1/8 > 0\<close> and
  \<open>cos (5 x) = - cos x / 4 < 0\<close>.
\<close>

lemma arcsin_inv_sqrt8:
  defines "x \<equiv> arcsin (1 / sqrt 8)"
  shows "pi / 10 < x" and "x < pi / 8"
proof -
  note r = inv_sqrt8_range
  have s: "sin x = 1 / sqrt 8" unfolding x_def using r by (intro sin_arcsin) linarith+
  have s2: "(sin x)\<^sup>2 = 1/8" by (simp add: s power_divide)
  have c2: "(cos x)\<^sup>2 = 7/8" using sin_cos_squared_add[of x] s2 by linarith
  have x0: "0 \<le> x" unfolding x_def by (rule arcsin_nonneg) (use r in simp)
  have xle: "x \<le> pi/2" unfolding x_def using r by (intro arcsin_ubound) linarith+
  have cpos: "0 < cos x"
  proof -
    have "0 \<le> cos x" using x0 xle by (intro cos_ge_zero) linarith+
    moreover have "cos x \<noteq> 0" using c2 by auto
    ultimately show ?thesis by simp
  qed
  have cos2: "cos (2*x) = 3/4" using s2 by (simp add: cos_double_sin)
  have sin2: "sin (2*x) = 2 * sin x * cos x" by (simp add: sin_double)
  have cos4: "cos (4*x) = 1/8"
    using cos_double_cos[of "2*x"] cos2 by (simp add: power2_eq_square)
  have cos3: "cos (3*x) = cos x / 2"
  proof -
    have "cos (3*x) = cos (2*x + x)" by simp
    also have "\<dots> = cos (2*x) * cos x - sin (2*x) * sin x" by (rule cos_add)
    also have "\<dots> = 3/4 * cos x - 2 * (sin x)\<^sup>2 * cos x"
      by (simp add: cos2 sin2 power2_eq_square)
    finally show ?thesis by (simp add: s2)
  qed
  have sin3: "sin (3*x) = 5 * sin x / 2"
  proof -
    have "sin (3*x) = sin (2*x + x)" by simp
    also have "\<dots> = sin (2*x) * cos x + cos (2*x) * sin x" by (rule sin_add)
    also have "\<dots> = 2 * sin x * (cos x)\<^sup>2 + 3/4 * sin x"
      by (simp add: cos2 sin2 power2_eq_square)
    finally show ?thesis by (simp add: c2)
  qed
  have cos5: "cos (5*x) = - cos x / 4"
  proof -
    have "cos (5*x) = cos (3*x + 2*x)" by simp
    also have "\<dots> = cos (3*x) * cos (2*x) - sin (3*x) * sin (2*x)" by (rule cos_add)
    also have "\<dots> = 3/8 * cos x - 5 * (sin x)\<^sup>2 * cos x"
      by (simp add: cos2 sin2 cos3 sin3 power2_eq_square)
    finally show ?thesis by (simp add: s2)
  qed
  show "pi / 10 < x"
  proof (rule ccontr)
    assume "\<not> pi / 10 < x"
    then have "5 * x \<le> pi/2" by simp
    then have "0 \<le> cos (5*x)" using x0 by (intro cos_ge_zero) linarith+
    then show False using cos5 cpos by simp
  qed
  have x4: "4 * x \<le> pi"
  proof (rule ccontr)
    assume "\<not> 4 * x \<le> pi"
    then have "pi/2 \<le> 2 * x" by simp
    moreover have "2 * x \<le> pi" using xle by simp
    ultimately have "cos (2*x) \<le> cos (pi/2)"
      by (intro cos_monotone_0_pi_le) (use pi_ge_zero in linarith)+
    then show False using cos2 by simp
  qed
  show "x < pi / 8"
  proof (rule ccontr)
    assume "\<not> x < pi / 8"
    then have "pi/2 \<le> 4 * x" by simp
    then have "cos (4*x) \<le> cos (pi/2)"
      using x4 by (intro cos_monotone_0_pi_le) (use pi_ge_zero in linarith)+
    then show False using cos4 by simp
  qed
qed

lemma grover_optimum_3: "3/2 < grover_optimum 3" "grover_optimum 3 < 2"
proof -
  define x where "x = arcsin (1 / sqrt 8)"
  have lo: "pi / 10 < x" and hi: "x < pi / 8"
    unfolding x_def by (rule arcsin_inv_sqrt8)+
  have xpos: "0 < x" using lo pi_gt_zero by (meson divide_pos_pos less_trans zero_less_numeral)
  have g: "grover_optimum 3 = pi / (4 * x) - 1/2"
    by (simp add: grover_optimum_def x_def)
  have "2 * (4 * x) < pi" using hi by simp
  then have "2 < pi / (4 * x)" using xpos by (simp add: pos_less_divide_eq)
  then show "3/2 < grover_optimum 3" unfolding g by simp
  have "pi < (5/2) * (4 * x)" using lo by simp
  then have "pi / (4 * x) < 5/2" using xpos by (simp add: pos_divide_less_eq)
  then show "grover_optimum 3 < 2" unfolding g by simp
qed

lemma max_grover_length_of_3: "max_grover_length_of 3 = 2"
  using py_round_upper_half[of 1 "grover_optimum 3"] grover_optimum_3
  by (simp add: max_grover_length_of_def)

lemma spec_max_iterations_3: "spec_max_iterations 3 = 1"
proof -
  have "spec_max_iterations 3 = \<lfloor>grover_optimum 3\<rfloor>"
    by (simp add: spec_max_iterations_def grover_optimum_def)
  also have "\<dots> = 1" using grover_optimum_3 by linarith
  finally show ?thesis .
qed

subsection \<open>The maximal Grover length\<close>

text \<open>
  C3, as the specification states it: the maximal length is the floor of
  \<open>pi / (4 arcsin (1 / sqrt (2^n))) - 0.5\<close>. The constructor rounds; on a register of three
  qubits (five to eight actions) it computes 2, the floor is 1.
\<close>

theorem max_iterations_floor_counterexample:
  "max_grover_length_of 3 = 2 \<and> spec_max_iterations 3 = 1 \<and>
   max_grover_length_of 3 \<noteq> spec_max_iterations 3"
  by (simp add: max_grover_length_of_3 spec_max_iterations_3)

text \<open>
  C3, amended: the maximal length is computed from the register width alone and is an
  integer nearest to \<open>pi / (4 arcsin (1 / sqrt (2^n))) - 0.5\<close>; four actions give two qubits
  and the maximal length 1.
\<close>

theorem max_grover_length_nearest:
  "\<bar>of_int (max_grover_length_of n) - grover_optimum n\<bar> \<le> 1/2 \<and>
   action_qregister_size_of 4 = Inr 2 \<and> max_grover_length_of 2 = 1"
  using py_round_nearest [of "grover_optimum n"]
  by (simp add: max_grover_length_of_2 qregister_size_4) (simp add: max_grover_length_of_def)

subsection \<open>The hyperparameter setter\<close>

text \<open>
  C10: \<^verbatim>\<open>set_hyperparameters\<close> changes nothing, whatever its argument; an agent holding the
  constructor's defaults holds them afterwards, with the values of the dictionary literal.
\<close>

theorem set_hyperparameters_noop:
  "set_hyperparameters params ag = (Inr (), ag) \<and>
   hyperparameters (snd (set_hyperparameters params
       (ag\<lparr>hyperparameters := default_hyperparameters\<rparr>))) =
     \<lparr>k = 1/10, alpha = 1/20, gamma = 99/100, eps = 1/100, max_epochs = 1000, max_steps = 100\<rparr>"
  by (simp add: set_hyperparameters_def returnP_def default_hyperparameters_def)

subsection \<open>Grover iterations\<close>

text \<open>
  C1 fails on the code: \<^verbatim>\<open>_run_grover_iterations\<close> reads \<^verbatim>\<open>self.grover_length\<close>, which is
  neither an attribute nor a method, so on every agent the call raises
  \<^verbatim>\<open>AttributeError\<close> and leaves the agent as it was: nothing is returned, nothing appended,
  no flag set.
\<close>

theorem run_grover_iterations_raises:
  "run_grover_iterations ag = (Inl (AttributeError ''grover_length''), ag)"
  by (simp add: run_grover_iterations_def unknown_names py_defs)

subsection \<open>The value update\<close>

text \<open>
  C4 fails on the code: \<^verbatim>\<open>_update_Q_values\<close> reads \<^verbatim>\<open>self.Q_values\<close> and then
  \<^verbatim>\<open>self.Q_value\<close>, a name the agent does not have. Every call raises and no entry of the
  table changes: \<^verbatim>\<open>IndexError\<close> when the current pair is outside the table,
  \<^verbatim>\<open>AttributeError\<close> otherwise.
\<close>

theorem update_Q_values_raises:
  "update_Q_values reward new_state ag =
     (case np_getitem2 (Q_values ag) (state ag) (action ag) of
        Inl e \<Rightarrow> (Inl e, ag)
      | Inr q \<Rightarrow> (Inl (AttributeError ''Q_value''), ag))"
  by (simp add: update_Q_values_def unknown_names py_defs split: sum.splits)

subsection \<open>Action selection\<close>

lemma take_action_result:
  "take_action execute ag =
     (case py_getitem (action_circuits ag) (state ag) of
        Inl e \<Rightarrow> (Inl e, ag)
      | Inr r \<Rightarrow>
          (case py_getitem (fst (execute (backend ag) (measure_all (objects ag ! r)) 1)) 0 of
             Inl e \<Rightarrow> Inl e
           | Inr key \<Rightarrow> int_base2 key,
           ag\<lparr>objects := objects ag @ [measure_all (objects ag ! r)],
              backend := snd (execute (backend ag) (measure_all (objects ag ! r)) 1)\<rparr>))"
  by (simp add: take_action_def copy_circuit_def measure_all_at_def execute_job_def py_defs
      Let_def split: sum.splits prod.splits)

text \<open>
  C9, as stated: every call of \<^verbatim>\<open>_take_action\<close> issues one execution. In state 7, with four
  action circuits, \<^verbatim>\<open>self.action_circuits[self.state]\<close> raises \<^verbatim>\<open>IndexError\<close>; the agent is
  as before and the backend, which notes every execution, has noted none.
\<close>

theorem take_action_execution_counterexample:
  "take_action example_execute (example_agent\<lparr>state := 7\<rparr>) =
     (Inl IndexError, example_agent\<lparr>state := 7\<rparr>) \<and>
   backend (snd (take_action example_execute (example_agent\<lparr>state := 7\<rparr>))) = []"
  by (simp add: take_action_result)
     (simp add: example_agent_def py_getitem_def norm_index_def)

text \<open>
  C9, amended: \<^verbatim>\<open>_take_action\<close> leaves the list of action circuits and every circuit object
  that existed before the call as they were, whether it returns or raises: the
  measurements go into a new object. When the current state indexes the list, the backend
  is left in the state that one execution of the measured copy with one shot puts it in,
  and the call returns the value of the first key of that execution's counts (or raises on
  that key). Otherwise the call raises at the index and nothing has changed.
\<close>

theorem take_action_frame:
  "action_circuits (snd (take_action execute ag)) = action_circuits ag \<and>
   take (length (objects ag)) (objects (snd (take_action execute ag))) = objects ag \<and>
   (\<forall>r. py_getitem (action_circuits ag) (state ag) = Inr r \<longrightarrow>
        backend (snd (take_action execute ag)) =
          snd (execute (backend ag) (measure_all (objects ag ! r)) 1) \<and>
        fst (take_action execute ag) =
          (case py_getitem (fst (execute (backend ag) (measure_all (objects ag ! r)) 1)) 0 of
             Inl e \<Rightarrow> Inl e
           | Inr key \<Rightarrow> int_base2 key)) \<and>
   (\<forall>e. py_getitem (action_circuits ag) (state ag) = Inl e \<longrightarrow>
        take_action execute ag = (Inl e, ag))"
  by (simp add: take_action_result split: sum.splits)

theorem take_action_frame_witness:
  "py_getitem (action_circuits example_agent) (state example_agent) = Inr 2 \<and>
   backend (snd (take_action example_execute example_agent)) = [1] \<and>
   fst (take_action example_execute example_agent) = Inr 0 \<and>
   action_circuits (snd (take_action example_execute example_agent)) = [0, 1, 2, 3] \<and>
   take 4 (objects (snd (take_action example_execute example_agent))) =
     objects example_agent"
proof -
  have h: "py_getitem (action_circuits example_agent) (state example_agent) = Inr 2"
    by (simp add: example_agent_def py_getitem_def norm_index_def)
  have l: "length (objects example_agent) = 4" "backend example_agent = []"
    "action_circuits example_agent = [0, 1, 2, 3]"
    by (simp_all add: example_agent_def)
  from take_action_frame [of example_execute example_agent] h l show ?thesis
    by (simp add: example_execute_def py_getitem_def norm_index_def int_base2_def)
qed

subsection \<open>Reward shaping\<close>

text \<open>
  C5, as the specification states it: a step that stays in its state gets the base reward
  minus 10 and no goal bonus. Staying in the goal state 3 of four states with base reward 0
  gives 89, the penalty and the bonus together.
\<close>

theorem shape_reward_exclusive_counterexample:
  "shape_reward 3 4 0 3 0 False
      \<lparr>optimal_steps = 10, target_reached = False, trajectory = [3],
       steps_in_all_epochs = [], target_reached_in_all_epochs = [],
       trajectories_in_all_epochs = []\<rparr> =
   (0 - 10 + 99, True,
      \<lparr>optimal_steps = 1, target_reached = True, trajectory = [3],
       steps_in_all_epochs = [], target_reached_in_all_epochs = [],
       trajectories_in_all_epochs = []\<rparr>) \<and>
   (0 - 10 + 99 :: real) \<noteq> 0 - 10"
  by (simp add: shape_reward_def)

text \<open>
  C5, amended: when the new state is the old one, \<^verbatim>\<open>done\<close> is forced, the step penalty of 1
  is not applied, and the reward is the base reward minus 10; the goal test is a separate
  \<^verbatim>\<open>if\<close>, so if that state is the goal \<open>S - 1\<close> the bonus of 99 is added as well and the goal
  is recorded.
\<close>

theorem shape_reward_same_state:
  assumes "new_state = s"
  shows "shape_reward s S stp new_state reward done loc =
     (if s = S - 1
      then (reward - 10 + 99, True, loc\<lparr>optimal_steps := stp + 1, target_reached := True\<rparr>)
      else (reward - 10, True, loc))"
  using assms by (simp add: shape_reward_def)

theorem shape_reward_same_state_witness:
  "shape_reward 1 4 0 1 0 True
      \<lparr>optimal_steps = 10, target_reached = False, trajectory = [1],
       steps_in_all_epochs = [], target_reached_in_all_epochs = [],
       trajectories_in_all_epochs = []\<rparr> =
   (- 10, True,
      \<lparr>optimal_steps = 10, target_reached = False, trajectory = [1],
       steps_in_all_epochs = [], target_reached_in_all_epochs = [],
       trajectories_in_all_epochs = []\<rparr>)"
  using shape_reward_same_state [of 1 1 4 0 0 True] by simp

subsection \<open>Construction of the action circuits\<close>

text \<open>
  C8 fails on the code: with at least one state, \<^verbatim>\<open>_init_action_circuits\<close> raises when it
  stores the first circuit into the array of floats that \<^verbatim>\<open>np.zeros\<close> made, and returns no
  circuit at all.
\<close>

theorem init_action_circuits_raises:
  "isl (fst (init_action_circuits (ag\<lparr>state_dimension := 1 + int m\<rparr>))) \<and>
   snd (init_action_circuits (ag\<lparr>state_dimension := 1 + int m\<rparr>)) =
     ag\<lparr>state_dimension := 1 + int m\<rparr>"
proof -
  have n: "nat (1 + int m) = Suc m" by simp
  have u: "[0..<Suc m] = 0 # [1..<Suc m]" by (simp add: upt_conv_Cons)
  show ?thesis
    by (simp add: init_action_circuits_def py_defs np_zeros_def n u float64_setitem_def
        del: upt_Suc)
qed

subsection \<open>The step loop and the epochs\<close>









lemma record_epoch_raises:
  "record_epoch loc ag =
     (Inl (TypeError ''builtin_function_or_method object is not subscriptable''), ag)"
  by (simp add: record_epoch_def subscript_method_def py_defs)

lemma epoch_loop_raises: "isl (fst (epoch_loop ms gm (Suc n) loc ag))"
  by (simp add: bindP_def record_epoch_raises split: sum.splits prod.splits)









text \<open>
  C7 fails on the code: each epoch ends with \<^verbatim>\<open>steps_in_all_epochs.append[optimal_steps]\<close>,
  a subscript on the method \<^verbatim>\<open>append\<close>, which raises \<^verbatim>\<open>TypeError\<close>. Whatever the environment
  and the methods do, \<^verbatim>\<open>train\<close> with at least one epoch to run raises and returns no
  sequences.
\<close>

theorem train_raises:
  "isl (fst (train ms gm
     (ag\<lparr>hyperparameters := (hyperparameters ag)\<lparr>max_epochs := 1 + int m\<rparr>\<rparr>)))"
proof -
  have n: "nat (1 + int m) = Suc m" by simp
  have "isl (fst (bindP (epoch_loop ms gm (Suc m) loc) f s))" for loc s
    and f :: "locals \<Rightarrow> (int list \<times> bool list \<times> int list list, ('a, 'b) agent) py"
    using epoch_loop_raises [of ms gm m loc s]
    by (cases "epoch_loop ms gm (Suc m) loc s") (auto simp add: bindP_def split: sum.splits)
  then show ?thesis
    by (simp add: train_def n readP_def bindP_def [of "\<lambda>s. (Inr (hyperparameters s), s)"])
qed


subsection \<open>The table of Grover lengths\<close>




end
